theory Spec2Isabelle
  imports Main "HOL-Library.Word"
begin

section \<open>JavaScript strings and numbers\<close>

text \<open>
  A JavaScript string is a sequence of UTF-16 code units: \<open>length\<close>, \<open>charCodeAt\<close>,
  \<open>slice\<close> and \<open>===\<close> all work on code units. Literals of the source are written
  \<open>str ''...''\<close>; control characters are given by their code.
\<close>

type_synonym char16 = "16 word"

type_synonym jsstring = "char16 list"

definition str :: "string \<Rightarrow> jsstring" where
  "str s = map (\<lambda>c. of_nat (of_char c)) s"

text \<open>\<open>key.charCodeAt(0)\<close>: \<open>NaN\<close> (here \<open>None\<close>) on the empty string.\<close>

definition charCodeAt0 :: "jsstring \<Rightarrow> char16 option" where
  "charCodeAt0 key = (case key of [] \<Rightarrow> None | c # _ \<Rightarrow> Some c)"

text \<open>
  \<open>String.prototype.trim\<close> removes white space and line terminators from both ends:
  TAB, LF, VT, FF, CR, SP, NBSP, U+1680, U+2000..U+200A, U+2028, U+2029, U+202F, U+205F,
  U+3000 and U+FEFF.
\<close>

definition isWhiteSpace :: "char16 \<Rightarrow> bool" where
  "isWhiteSpace c \<longleftrightarrow>
     c = 0x09 \<or> c = 0x0A \<or> c = 0x0B \<or> c = 0x0C \<or> c = 0x0D \<or> c = 0x20 \<or> c = 0xA0 \<or>
     c = 0x1680 \<or> (0x2000 \<le> c \<and> c \<le> 0x200A) \<or> c = 0x2028 \<or> c = 0x2029 \<or>
     c = 0x202F \<or> c = 0x205F \<or> c = 0x3000 \<or> c = 0xFEFF"

definition trim :: "jsstring \<Rightarrow> jsstring" where
  "trim s = rev (dropWhile isWhiteSpace (rev (dropWhile isWhiteSpace s)))"

text \<open>\<open>s.slice(0, -1)\<close>: all but the last code unit; the empty string stays empty.\<close>

definition slice0m1 :: "jsstring \<Rightarrow> jsstring" where
  "slice0m1 s = take (length s - 1) s"

text \<open>The decimal text of a non-negative integer, as a template literal prints it.\<close>

fun numToString :: "nat \<Rightarrow> jsstring" where
  "numToString n =
     (if n < 10 then [of_nat (48 + n)]
      else numToString (n div 10) @ [of_nat (48 + n mod 10)])"

declare numToString.simps [simp del]

text \<open>
  The remainder operator \<open>a % b\<close> on integers: the sign follows the dividend, and the
  result is \<open>NaN\<close> (here \<open>None\<close>) when the divisor is zero.
\<close>

definition jsRem :: "int \<Rightarrow> int \<Rightarrow> int option" where
  "jsRem a b = (if b = 0 then None else Some (sgn a * (\<bar>a\<bar> mod \<bar>b\<bar>)))"

text \<open>\<open>xs[i]\<close>: \<open>undefined\<close> (here \<open>None\<close>) when \<open>i\<close> is \<open>NaN\<close> or out of range.\<close>

definition jsIndex :: "jsstring list \<Rightarrow> int option \<Rightarrow> jsstring option" where
  "jsIndex xs i =
     (case i of None \<Rightarrow> None
      | Some k \<Rightarrow> if 0 \<le> k \<and> k < int (length xs) then Some (xs ! nat k) else None)"

text \<open>\<open>v || ''\<close> for a string or \<open>undefined\<close>: the empty string is falsy as well.\<close>

definition orEmpty :: "jsstring option \<Rightarrow> jsstring" where
  "orEmpty v = (case v of None \<Rightarrow> [] | Some s \<Rightarrow> s)"

section \<open>The prompt\<close>

definition terminalTitleTemplate :: jsstring where
  "terminalTitleTemplate = str ''[root@server] $ ''"

text \<open>
  \<open>terminalTitleTemplate.replace(/\x1B\[[0-9;]*[a-zA-Z]/g, '')\<close>: every match of ESC,
  \<open>[\<close>, parameter characters and one letter is removed. The parameter class and the
  letter class are disjoint, so the greedy star never has to give a character back;
  where the letter is missing there is no match at this ESC and it is kept.
\<close>

definition isParamChar :: "char16 \<Rightarrow> bool" where
  "isParamChar c \<longleftrightarrow> (0x30 \<le> c \<and> c \<le> 0x39) \<or> c = 0x3B"

definition isAsciiLetter :: "char16 \<Rightarrow> bool" where
  "isAsciiLetter c \<longleftrightarrow> (0x61 \<le> c \<and> c \<le> 0x7A) \<or> (0x41 \<le> c \<and> c \<le> 0x5A)"

definition csiMatch :: "jsstring \<Rightarrow> bool" where
  "csiMatch cs \<longleftrightarrow>
     take 1 cs = [0x5B] \<and>
     (case dropWhile isParamChar (drop 1 cs) of [] \<Rightarrow> False | f # _ \<Rightarrow> isAsciiLetter f)"

function stripAnsi :: "jsstring \<Rightarrow> jsstring" where
  "stripAnsi [] = []"
| "stripAnsi (c # cs) =
     (if c = 0x1B \<and> csiMatch cs then stripAnsi (tl (dropWhile isParamChar (drop 1 cs)))
      else c # stripAnsi cs)"
  by pat_completeness auto
termination
proof (relation "measure length")
  show "wf (measure (length :: jsstring \<Rightarrow> nat))" by simp
next
  fix c :: char16 and cs :: jsstring
  have "length (dropWhile isParamChar (drop 1 cs)) \<le> length cs"
    by (rule order_trans [OF length_dropWhile_le]) simp
  then show "(tl (dropWhile isParamChar (drop 1 cs)), c # cs) \<in> measure length"
    by simp
next
  fix c :: char16 and cs :: jsstring
  show "(cs, c # cs) \<in> measure length" by simp
qed

definition visiblePrompt :: jsstring where
  "visiblePrompt = stripAnsi terminalTitleTemplate"

definition promptLength :: nat where
  "promptLength = length visiblePrompt"

text \<open>The text \<open>writePrompt\<close> writes: a line break, bright white, the prompt, reset.\<close>

definition promptText :: jsstring where
  "promptText = [0x0D, 0x0A, 0x1B] @ str ''[97m'' @ terminalTitleTemplate @ [0x1B] @ str ''[0m''"

section \<open>The component's state\<close>

text \<open>
  The calls a terminal object receives, in order. \<open>Fit\<close> is the call of the fit addon
  loaded into it.
\<close>

datatype term_call = Open | LoadAddon | Fit | Focus | Write jsstring | Writeln jsstring
  | Clear | Dispose

text \<open>An action handed to \<open>dispatch\<close>; its callback arrives later as an event.\<close>

record action =
  action_type :: string
  param :: "jsstring option"

text \<open>
  The response a callback receives. \<open>None\<close> stands for a response with no \<open>data\<close>
  (or no response at all), so that \<open>res?.data?.f\<close> is \<open>undefined\<close>. A field is
  \<open>None\<close> when it is absent; a present field has the type the interface gives it, an
  array of strings or a string (an empty array is truthy, an empty string is not).
\<close>

record response_data =
  taskListStr :: "jsstring list option"
  errorData :: "jsstring option"
  taskList :: "jsstring list option"

type_synonym response = "response_data option"

text \<open>Which optional props the component was given.\<close>

record props =
  dispatch :: bool
  onKey :: bool

text \<open>
  The refs of the component, with the world it acts on: terminal objects are numbered
  as they are created, \<open>termRef\<close> holds the current one and \<open>calls\<close> is the trace of
  every call made on a terminal; \<open>dispatched\<close> are the actions handed to \<open>dispatch\<close>
  and \<open>keysReported\<close> the arguments of \<open>onKey\<close>. \<open>disposed\<close> is the local flag of
  the running effect, \<open>terminalRef\<close> says whether the container element is attached.
\<close>

record shell =
  historyLineData :: "jsstring list"
  currentLineData :: jsstring
  lastCommandIndex :: int
  isInitialized :: bool
  renderCount :: nat
  isDisposed :: bool
  termRef :: "nat option"
  terminalRef :: bool
  disposed :: bool
  created :: nat
  calls :: "(nat \<times> term_call) list"
  dispatched :: "action list"
  keysReported :: "jsstring list"

definition init_shell :: shell where
  "init_shell =
     \<lparr>historyLineData = [], currentLineData = [], lastCommandIndex = 0,
      isInitialized = False, renderCount = 0, isDisposed = False, termRef = None,
      terminalRef = True, disposed = False, created = 0, calls = [], dispatched = [],
      keysReported = []\<rparr>"

definition call :: "nat \<Rightarrow> term_call \<Rightarrow> shell \<Rightarrow> shell" where
  "call t c s = s\<lparr>calls := calls s @ [(t, c)]\<rparr>"

text \<open>\<open>termRef.current?.m(...)\<close>: nothing happens when the ref is null.\<close>

definition optCall :: "term_call \<Rightarrow> shell \<Rightarrow> shell" where
  "optCall c s = (case termRef s of None \<Rightarrow> s | Some t \<Rightarrow> call t c s)"

text \<open>\<open>termRef.current.m(...)\<close>: a TypeError (here \<open>None\<close>) when the ref is null.\<close>

definition derefCall :: "term_call \<Rightarrow> shell \<Rightarrow> shell option" where
  "derefCall c s = (case termRef s of None \<Rightarrow> None | Some t \<Rightarrow> Some (call t c s))"

definition send :: "action \<Rightarrow> shell \<Rightarrow> shell" where
  "send a s = s\<lparr>dispatched := dispatched s @ [a]\<rparr>"

section \<open>writePrompt and runJob\<close>

definition writePrompt :: "shell \<Rightarrow> shell" where
  "writePrompt s =
     (if \<not> isDisposed s \<and> termRef s \<noteq> None then optCall (Write promptText) s else s)"

definition runJob :: "props \<Rightarrow> jsstring \<Rightarrow> shell \<Rightarrow> shell" where
  "runJob p cmd s =
     (if cmd \<noteq> [] \<and> dispatch p \<and> \<not> isDisposed s \<and> termRef s \<noteq> None then
        send \<lparr>action_type = ''task/terminalOperation'', param = Some cmd\<rparr> s
      else if \<not> isDisposed s \<and> termRef s \<noteq> None then writePrompt s
      else s)"

primrec writelnEach :: "jsstring list \<Rightarrow> shell \<Rightarrow> shell" where
  "writelnEach [] s = s"
| "writelnEach (l # ls) s = writelnEach ls (optCall (Writeln l) s)"

text \<open>The callback \<open>runJob\<close> hands to \<open>dispatch\<close>.\<close>

definition jobOutput :: "response \<Rightarrow> shell \<Rightarrow> shell" where
  "jobOutput res s =
     (case res of None \<Rightarrow> s
      | Some d \<Rightarrow>
          (case taskListStr d of Some ls \<Rightarrow> writelnEach ls s
           | None \<Rightarrow>
               (case errorData d of None \<Rightarrow> s
                | Some e \<Rightarrow> if e \<noteq> [] then optCall (Writeln e) s else s)))"

definition jobCallback :: "response \<Rightarrow> shell \<Rightarrow> shell option" where
  "jobCallback res s =
     (if \<not> isDisposed s \<and> termRef s \<noteq> None then
        (case derefCall (Write [0x0D, 0x0A]) s of None \<Rightarrow> None
         | Some s1 \<Rightarrow> derefCall Focus (writePrompt (jobOutput res s1)))
      else Some s)"

section \<open>The key handler\<close>

definition writeKey :: "nat \<Rightarrow> jsstring \<Rightarrow> shell \<Rightarrow> shell" where
  "writeKey t k s = (if \<not> isDisposed s then call t (Write k) s else s)"

definition writeBackspace :: "nat \<Rightarrow> nat \<Rightarrow> shell \<Rightarrow> shell" where
  "writeBackspace t cursorX s =
     (if \<not> isDisposed s \<and> cursorX > promptLength then
        writeKey t [0x08, 0x20, 0x08] (s\<lparr>currentLineData := slice0m1 (currentLineData s)\<rparr>)
      else s)"

definition clearCurrentLine :: "nat \<Rightarrow> shell \<Rightarrow> shell" where
  "clearCurrentLine t s =
     (if \<not> isDisposed s then
        call t (Write ([0x1B] @ str ''[K''))
          (call t (Write ([0x1B] @ str ''['' @ numToString (promptLength + 1) @ str ''G''))
            (call t (Write ([0x1B] @ str ''[G'')) s))
      else s)"

definition enterKey :: "props \<Rightarrow> nat \<Rightarrow> shell \<Rightarrow> shell" where
  "enterKey p t s =
     (let currentCommand = trim (currentLineData s);
          s1 = (if currentCommand \<noteq> [] then
                  s\<lparr>historyLineData := historyLineData s @ [currentCommand],
                    lastCommandIndex := int (length (historyLineData s @ [currentCommand]))\<rparr>
                else s);
          s2 = (if currentCommand = str ''clear'' then
                  (if \<not> isDisposed s1 then call t Clear s1 else s1)
                else s1);
          s3 = (if dispatch p then runJob p currentCommand s2 else writePrompt s2)
      in s3\<lparr>currentLineData := []\<rparr>)"

definition upKey :: "nat \<Rightarrow> shell \<Rightarrow> shell" where
  "upKey t s =
     (if length (historyLineData s) > 0 \<and> lastCommandIndex s > 0 then
        (let s1 = clearCurrentLine t s;
             s2 = s1\<lparr>lastCommandIndex := lastCommandIndex s1 - 1\<rparr>;
             s3 = s2\<lparr>currentLineData :=
                    orEmpty (jsIndex (historyLineData s2)
                      (jsRem (lastCommandIndex s2) (int (length (historyLineData s2)))))\<rparr>
         in writeKey t (currentLineData s3) s3)
      else s)"

definition downKey :: "nat \<Rightarrow> shell \<Rightarrow> shell" where
  "downKey t s =
     (if length (historyLineData s) > 0 \<and> lastCommandIndex s < int (length (historyLineData s))
      then
        (let s1 = clearCurrentLine t s;
             s2 = s1\<lparr>lastCommandIndex := lastCommandIndex s1 + 1\<rparr>;
             s3 = s2\<lparr>currentLineData :=
                    orEmpty (jsIndex (historyLineData s2)
                      (jsRem (lastCommandIndex s2 - 1) (int (length (historyLineData s2)))))\<rparr>;
             s4 = writeKey t (currentLineData s3) s3
         in if lastCommandIndex s4 = int (length (historyLineData s4))
            then s4\<lparr>currentLineData := []\<rparr> else s4)
      else s)"

definition otherKey :: "nat \<Rightarrow> jsstring \<Rightarrow> shell \<Rightarrow> shell" where
  "otherKey t key s = writeKey t key (s\<lparr>currentLineData := currentLineData s @ key\<rparr>)"

text \<open>
  The handler of \<open>term.onData\<close>. \<open>cursorX\<close> is what \<open>term.buffer.active.cursorX\<close>
  answers during this call. The handler's \<open>term\<close> is the terminal \<open>termRef\<close> held when
  the call began.
\<close>

definition onData :: "props \<Rightarrow> jsstring \<Rightarrow> nat \<Rightarrow> shell \<Rightarrow> shell" where
  "onData p key cursorX s =
     (case termRef s of None \<Rightarrow> s
      | Some t \<Rightarrow>
          if isDisposed s then s
          else
            (let s1 =
               (if charCodeAt0 key = Some 13 then enterKey p t s
                else if charCodeAt0 key = Some 127 then writeBackspace t cursorX s
                else if key = [0x1B, 0x5B, 0x41] then upKey t s
                else if key = [0x1B, 0x5B, 0x42] then downKey t s
                else otherKey t key s)
             in if onKey p then s1\<lparr>keysReported := keysReported s1 @ [key]\<rparr> else s1))"

section \<open>The effect: mount, the initial query, cleanup\<close>

definition initCallback :: "response \<Rightarrow> shell \<Rightarrow> shell" where
  "initCallback res s =
     (if \<not> isDisposed s \<and> termRef s \<noteq> None then
        (let s1 = (case res of None \<Rightarrow> s
                   | Some d \<Rightarrow> (case taskList d of None \<Rightarrow> s | Some ls \<Rightarrow> writelnEach ls s))
         in writePrompt (s1\<lparr>isInitialized := True\<rparr>))
      else s)"

definition mount :: "props \<Rightarrow> shell \<Rightarrow> shell" where
  "mount p s =
     (let t = created s;
          s1 = s\<lparr>created := Suc t, termRef := Some t, isDisposed := False, disposed := False\<rparr>;
          s2 = (if terminalRef s1 then call t Open s1 else s1);
          s3 = call t Focus (call t Fit (call t LoadAddon s2));
          s4 = s3\<lparr>renderCount := Suc (renderCount s3)\<rparr>;
          s5 = (if \<not> isInitialized s4 \<and> dispatch p then
                  send \<lparr>action_type = ''task/queryTask'', param = None\<rparr> s4
                else s4\<lparr>isInitialized := True\<rparr>)
      in writePrompt s5)"

definition cleanup :: "shell \<Rightarrow> shell" where
  "cleanup s =
     (let s1 = s\<lparr>isDisposed := True\<rparr>
      in if termRef s1 \<noteq> None \<and> \<not> disposed s1 then
           (optCall Dispose s1)\<lparr>termRef := None, disposed := True\<rparr>
         else s1)"

section \<open>Events\<close>

text \<open>
  Everything that happens to the component is one of these events, each handled to
  completion before the next. A callback handed to \<open>dispatch\<close> is an event of its
  own, arriving at any time after the handler that dispatched has returned. A result of
  \<open>None\<close> is an uncaught TypeError.
\<close>

datatype event = Mount | Unmount | Data jsstring nat | JobCallback response
  | InitCallback response

fun step :: "props \<Rightarrow> event \<Rightarrow> shell \<Rightarrow> shell option" where
  "step p Mount s = Some (mount p s)"
| "step p Unmount s = Some (cleanup s)"
| "step p (Data key cursorX) s = Some (onData p key cursorX s)"
| "step p (JobCallback res) s = jobCallback res s"
| "step p (InitCallback res) s = Some (initCallback res s)"

fun run :: "props \<Rightarrow> event list \<Rightarrow> shell \<Rightarrow> shell option" where
  "run p [] s = Some s"
| "run p (e # es) s = (case step p e s of None \<Rightarrow> None | Some s' \<Rightarrow> run p es s')"

section \<open>The display surface\<close>

text \<open>
  Modelled from the spec: the display surface is an external terminal widget, absent
  from the sources; the spec names its interface (write, writeLine, clear, cursor
  column, focus, dispose) and what the shell's sequences are for: erasing the current
  line puts the cursor on the first column after the prompt and erases to the end of
  the line, and the backspace sequence erases one cell. The source's comments name the
  sequences: \<open>ESC [ n G\<close> is Cursor Horizontal Absolute and \<open>ESC [ K\<close> is Erase in
  Line to the right.

  Only the line the cursor is on is kept. Assumptions: the line never wraps, and every
  printable code unit fills one cell. Input outside the modelled fragment (other control
  characters, other sequences, a sequence cut off by the end of a write) gives \<open>None\<close>.
\<close>

record screen =
  cells :: jsstring
  cursorCol :: nat

definition isPrintable :: "char16 \<Rightarrow> bool" where
  "isPrintable c \<longleftrightarrow> (0x20 \<le> c \<and> c < 0x7F) \<or> 0xA0 \<le> c"

definition putChar :: "char16 \<Rightarrow> screen \<Rightarrow> screen" where
  "putChar c sc =
     \<lparr>cells =
        (if cursorCol sc < length (cells sc) then (cells sc)[cursorCol sc := c]
         else cells sc @ replicate (cursorCol sc - length (cells sc)) 0x20 @ [c]),
      cursorCol = Suc (cursorCol sc)\<rparr>"

text \<open>The first numeric parameter of a control sequence; 0 when it is absent.\<close>

definition paramValue :: "jsstring \<Rightarrow> nat" where
  "paramValue ps =
     foldl (\<lambda>n c. 10 * n + unat (c - 0x30)) 0 (takeWhile (\<lambda>c. c \<noteq> 0x3B) ps)"

text \<open>
  A control sequence with parameters \<open>ps\<close> and final character \<open>f\<close>: \<open>m\<close> changes
  colours only, \<open>G\<close> moves the cursor to column \<open>n\<close> (counted from 1, default 1),
  \<open>K\<close> with parameter 0 erases from the cursor to the end of the line.
\<close>

definition csi :: "jsstring \<Rightarrow> char16 \<Rightarrow> screen \<Rightarrow> screen option" where
  "csi ps f sc =
     (if f = 0x6D then Some sc
      else if f = 0x47 then Some (sc\<lparr>cursorCol := max (paramValue ps) 1 - 1\<rparr>)
      else if f = 0x4B \<and> paramValue ps = 0 then
        Some (sc\<lparr>cells := take (cursorCol sc) (cells sc)\<rparr>)
      else None)"

datatype parser = Ground | Escape | Csi jsstring

fun feed :: "parser \<Rightarrow> jsstring \<Rightarrow> screen \<Rightarrow> screen option" where
  "feed Ground [] sc = Some sc"
| "feed Escape [] sc = None"
| "feed (Csi ps) [] sc = None"
| "feed Ground (c # cs) sc =
     (if c = 0x1B then feed Escape cs sc
      else if c = 0x0D then feed Ground cs (sc\<lparr>cursorCol := 0\<rparr>)
      else if c = 0x0A then feed Ground cs (sc\<lparr>cells := []\<rparr>)
      else if c = 0x08 then feed Ground cs (sc\<lparr>cursorCol := cursorCol sc - 1\<rparr>)
      else if isPrintable c then feed Ground cs (putChar c sc)
      else None)"
| "feed Escape (c # cs) sc = (if c = 0x5B then feed (Csi []) cs sc else None)"
| "feed (Csi ps) (c # cs) sc =
     (if isParamChar c then feed (Csi (ps @ [c])) cs sc
      else (case csi ps c sc of None \<Rightarrow> None | Some sc' \<Rightarrow> feed Ground cs sc'))"

text \<open>
  \<open>writeln\<close> is \<open>write\<close> followed by a line break; \<open>clear\<close> drops the lines above and
  keeps the cursor's line; a disposed terminal displays nothing.
\<close>

fun renderCall :: "term_call \<Rightarrow> screen \<Rightarrow> screen option" where
  "renderCall (Write s) sc = feed Ground s sc"
| "renderCall (Writeln s) sc = feed Ground (s @ [0x0D, 0x0A]) sc"
| "renderCall Dispose sc = None"
| "renderCall Open sc = Some sc"
| "renderCall LoadAddon sc = Some sc"
| "renderCall Fit sc = Some sc"
| "renderCall Focus sc = Some sc"
| "renderCall Clear sc = Some sc"

fun renderCalls :: "term_call list \<Rightarrow> screen \<Rightarrow> screen option" where
  "renderCalls [] sc = Some sc"
| "renderCalls (c # cs) sc =
     (case renderCall c sc of None \<Rightarrow> None | Some sc' \<Rightarrow> renderCalls cs sc')"

definition callsOf :: "nat \<Rightarrow> shell \<Rightarrow> term_call list" where
  "callsOf t s = map snd (filter (\<lambda>tc. fst tc = t) (calls s))"

text \<open>The cursor's line of terminal \<open>t\<close>, and what it shows after the prompt.\<close>

definition displayLine :: "nat \<Rightarrow> shell \<Rightarrow> screen option" where
  "displayLine t s = renderCalls (callsOf t s) \<lparr>cells = [], cursorCol = 0\<rparr>"

definition displayedInput :: "nat \<Rightarrow> shell \<Rightarrow> jsstring option" where
  "displayedInput t s = map_option (\<lambda>sc. drop promptLength (cells sc)) (displayLine t s)"

section \<open>Notions the properties are stated with\<close>

text \<open>The history cursor stays between 0 and the length of the history.\<close>

definition cursorInv :: "shell \<Rightarrow> bool" where
  "cursorInv s \<longleftrightarrow>
     0 \<le> lastCommandIndex s \<and> lastCommandIndex s \<le> int (length (historyLineData s))"

text \<open>
  A printable-character event: data that is not empty and holds printable code units
  only (so neither Enter, nor Backspace, nor an arrow key's escape sequence).
\<close>

definition printableKey :: "event \<Rightarrow> bool" where
  "printableKey e =
     (case e of Data key cursorX \<Rightarrow> key \<noteq> [] \<and> list_all isPrintable key | _ \<Rightarrow> False)"

fun keyOf :: "event \<Rightarrow> jsstring" where
  "keyOf (Data key cursorX) = key"
| "keyOf Mount = []"
| "keyOf Unmount = []"
| "keyOf (JobCallback res) = []"
| "keyOf (InitCallback res) = []"

definition typedText :: "event list \<Rightarrow> jsstring" where
  "typedText es = concat (map keyOf es)"

text \<open>The display shows the prompt and then the input buffer, the cursor at its end.\<close>

definition displayInSync :: "nat \<Rightarrow> shell \<Rightarrow> bool" where
  "displayInSync t s \<longleftrightarrow>
     displayLine t s =
       Some \<lparr>cells = visiblePrompt @ currentLineData s,
             cursorCol = promptLength + length (currentLineData s)\<rparr>"

text \<open>What can still arrive once the component is unmounted: callbacks and key data.\<close>

fun lateEvent :: "event \<Rightarrow> bool" where
  "lateEvent (JobCallback res) = True"
| "lateEvent (InitCallback res) = True"
| "lateEvent (Data key cursorX) = True"
| "lateEvent Mount = False"
| "lateEvent Unmount = False"

text \<open>How often the prompt was rendered.\<close>

definition promptRenders :: "shell \<Rightarrow> nat" where
  "promptRenders s = length (filter (\<lambda>tc. snd tc = Write promptText) (calls s))"

text \<open>The two actions the component dispatches.\<close>

definition queryTask :: action where
  "queryTask = \<lparr>action_type = ''task/queryTask'', param = None\<rparr>"

definition terminalOperation :: "jsstring \<Rightarrow> action" where
  "terminalOperation cmd = \<lparr>action_type = ''task/terminalOperation'', param = Some cmd\<rparr>"

subsection \<open>Concrete inputs\<close>

definition noProps :: props where
  "noProps = \<lparr>dispatch = False, onKey = False\<rparr>"

definition withDispatch :: props where
  "withDispatch = \<lparr>dispatch = True, onKey = False\<rparr>"

definition enter :: event where
  "enter = Data [13] 0"

definition backspace :: "nat \<Rightarrow> event" where
  "backspace cursorX = Data [127] cursorX"

definition upArrow :: event where
  "upArrow = Data [0x1B, 0x5B, 0x41] 0"

definition downArrow :: event where
  "downArrow = Data [0x1B, 0x5B, 0x42] 0"

definition typed :: "string \<Rightarrow> event" where
  "typed k = Data (str k) 0"

text \<open>A fresh component: mounted, then the commands a, b and c submitted in order.\<close>

definition submitABC :: "event list" where
  "submitABC = [Mount, typed ''a'', enter, typed ''b'', enter, typed ''c'', enter]"

definition stateAfter :: "props \<Rightarrow> event list \<Rightarrow> shell" where
  "stateAfter p es = (case run p es init_shell of None \<Rightarrow> init_shell | Some s \<Rightarrow> s)"

definition mountedD :: shell where
  "mountedD = stateAfter withDispatch [Mount]"

definition typedAB :: shell where
  "typedAB = stateAfter noProps [Mount, typed ''a'', typed ''b'']"

definition blankLine :: shell where
  "blankLine = stateAfter withDispatch [Mount, typed ''  '']"

definition typedClear :: shell where
  "typedClear = stateAfter withDispatch [Mount, typed ''clear'']"

definition paddedClear :: shell where
  "paddedClear = stateAfter withDispatch [Mount, typed ''  clear '']"

definition afterABC :: shell where
  "afterABC = stateAfter noProps submitABC"

definition listResponse :: response_data where
  "listResponse =
     \<lparr>taskListStr = Some [str ''task1'', str ''task2''], errorData = None, taskList = None\<rparr>"

definition errorResponse :: response_data where
  "errorResponse = \<lparr>taskListStr = None, errorData = Some (str ''not found''), taskList = None\<rparr>"

definition emptyErrorResponse :: response_data where
  "emptyErrorResponse = \<lparr>taskListStr = None, errorData = Some [], taskList = None\<rparr>"

definition noPayloadResponse :: response_data where
  "noPayloadResponse = \<lparr>taskListStr = None, errorData = None, taskList = None\<rparr>"

definition queryResponse :: response_data where
  "queryResponse =
     \<lparr>taskListStr = None, errorData = None, taskList = Some [str ''task1'', str ''task2'']\<rparr>"

text \<open>
  The arrow keys of the history round trip, and what is observed after a run from the
  fresh component: the text shown after the prompt, the input buffer and the cursor.
\<close>

definition recallKeys :: "event list" where
  "recallKeys = [upArrow, upArrow, upArrow, upArrow, downArrow, downArrow, downArrow]"

definition shownAfter :: "event list \<Rightarrow> (jsstring option \<times> jsstring \<times> int) option" where
  "shownAfter es =
     map_option (\<lambda>s. (displayedInput 0 s, currentLineData s, lastCommandIndex s))
       (run noProps es init_shell)"

section \<open>Evaluation of the concrete inputs\<close>

lemmas eval_defs =
  stateAfter_def mountedD_def typedAB_def blankLine_def typedClear_def afterABC_def
  shownAfter_def recallKeys_def submitABC_def upArrow_def downArrow_def enter_def typed_def
  backspace_def noProps_def withDispatch_def init_shell_def mount_def cleanup_def onData_def
  enterKey_def upKey_def downKey_def otherKey_def writeBackspace_def writeKey_def
  clearCurrentLine_def runJob_def writePrompt_def optCall_def call_def send_def
  charCodeAt0_def trim_def isWhiteSpace_def jsRem_def jsIndex_def orEmpty_def Let_def
  numToString.simps

lemmas display_defs =
  displayedInput_def displayLine_def callsOf_def promptText_def visiblePrompt_def
  promptLength_def terminalTitleTemplate_def isParamChar_def isPrintable_def csi_def
  paramValue_def putChar_def str_def

lemma promptLength_eq: "promptLength = 16"
  by (simp add: promptLength_def visiblePrompt_def terminalTitleTemplate_def str_def)

lemma mountedD_eq:
  "mountedD = init_shell\<lparr>termRef := Some 0, created := 1, renderCount := 1,
      calls := [(0, Open), (0, LoadAddon), (0, Fit), (0, Focus), (0, Write promptText)],
      dispatched := [queryTask]\<rparr>"
  by (simp add: eval_defs queryTask_def)

lemma typedAB_eq:
  "typedAB = init_shell\<lparr>termRef := Some 0, created := 1, renderCount := 1,
      isInitialized := True, currentLineData := str ''ab'',
      calls := [(0, Open), (0, LoadAddon), (0, Fit), (0, Focus), (0, Write promptText),
                (0, Write (str ''a'')), (0, Write (str ''b''))]\<rparr>"
  by (simp add: eval_defs str_def)

lemma blankLine_eq:
  "blankLine = mountedD\<lparr>currentLineData := str ''  '',
      calls := calls mountedD @ [(0, Write (str ''  ''))]\<rparr>"
  by (simp add: eval_defs str_def)

lemma typedClear_eq:
  "typedClear = mountedD\<lparr>currentLineData := str ''clear'',
      calls := calls mountedD @ [(0, Write (str ''clear''))]\<rparr>"
  by (simp add: eval_defs str_def)

lemma paddedClear_eq:
  "paddedClear = mountedD\<lparr>currentLineData := str ''  clear '',
      calls := calls mountedD @ [(0, Write (str ''  clear ''))]\<rparr>"
  by (simp add: eval_defs paddedClear_def str_def)

lemma afterABC_eq:
  "afterABC = init_shell\<lparr>termRef := Some 0, created := 1, renderCount := 1,
      isInitialized := True,
      historyLineData := [str ''a'', str ''b'', str ''c''], lastCommandIndex := 3,
      calls := [(0, Open), (0, LoadAddon), (0, Fit), (0, Focus), (0, Write promptText),
                (0, Write (str ''a'')), (0, Write promptText),
                (0, Write (str ''b'')), (0, Write promptText),
                (0, Write (str ''c'')), (0, Write promptText)]\<rparr>"
  by (simp add: eval_defs str_def)

section \<open>Helper lemmas\<close>

lemma slice0m1_butlast: "slice0m1 s = butlast s"
  by (simp add: slice0m1_def butlast_conv_take)

lemma writelnEach_calls:
  "termRef s = Some t \<Longrightarrow>
     writelnEach ls s = s\<lparr>calls := calls s @ map (\<lambda>l. (t, Writeln l)) ls\<rparr>"
  by (induction ls arbitrary: s) (simp_all add: optCall_def call_def)

lemma mount_mounted:
  "\<not> isDisposed (mount p s) \<and> termRef (mount p s) = Some (created s)"
  by (simp add: mount_def writePrompt_def optCall_def call_def send_def Let_def)

lemma filter_Writeln_prompt:
  "filter (\<lambda>tc. snd tc = Write promptText) (map (\<lambda>l. (t, Writeln l)) ls) = []"
  by (induction ls) simp_all

lemma cleanup_isDisposed: "isDisposed (cleanup s)"
  by (simp add: cleanup_def optCall_def call_def Let_def split: option.split)

lemma late_step_disposed:
  "isDisposed s \<Longrightarrow> lateEvent e \<Longrightarrow> step p e s = Some s"
  by (cases e) (simp_all add: onData_def jobCallback_def initCallback_def split: option.split)

lemma late_run_disposed:
  "isDisposed s \<Longrightarrow> list_all lateEvent es \<Longrightarrow> run p es s = Some s"
  by (induction es) (simp_all add: late_step_disposed)

subsection \<open>Trimming\<close>

lemma dropWhile_keeps:
  "xs \<noteq> [] \<Longrightarrow> \<not> P (hd xs) \<Longrightarrow> dropWhile P xs = xs"
  by (cases xs) simp_all

lemma trim_sandwich:
  assumes "list_all isWhiteSpace ws" and "list_all isWhiteSpace ws'"
    and "cmd \<noteq> [] \<longrightarrow> \<not> isWhiteSpace (hd cmd) \<and> \<not> isWhiteSpace (last cmd)"
  shows "trim (ws @ cmd @ ws') = cmd"
proof (cases "cmd = []")
  case True
  have "dropWhile isWhiteSpace (ws @ ws') = dropWhile isWhiteSpace ws'"
    using assms(1) by (simp add: list_all_iff dropWhile_append2)
  moreover have "dropWhile isWhiteSpace ws' = []"
    using assms(2) by (simp add: list_all_iff)
  ultimately have "dropWhile isWhiteSpace (ws @ ws') = []" by (simp only:)
  then show ?thesis unfolding trim_def True by (simp only: append_Nil rev.simps dropWhile.simps)
next
  case False
  with assms(3) have h: "\<not> isWhiteSpace (hd cmd)" and l: "\<not> isWhiteSpace (last cmd)"
    by simp_all
  have a: "dropWhile isWhiteSpace (ws @ cmd @ ws') = cmd @ ws'"
    using assms(1) False h by (cases cmd) (simp_all add: list_all_iff dropWhile_append2)
  have "hd (rev cmd) = last cmd" using False by (simp add: hd_rev)
  with l False have b: "dropWhile isWhiteSpace (rev cmd) = rev cmd"
    by (intro dropWhile_keeps) simp_all
  have "\<And>x. x \<in> set (rev ws') \<Longrightarrow> isWhiteSpace x"
    using assms(2) by (simp add: list_all_iff)
  then have "dropWhile isWhiteSpace (rev ws' @ rev cmd) = dropWhile isWhiteSpace (rev cmd)"
    by (rule dropWhile_append2)
  then have "dropWhile isWhiteSpace (rev ws' @ rev cmd) = rev cmd"
    by (simp only: b)
  with a show ?thesis by (simp add: trim_def)
qed

text \<open>Every buffer splits in this way, so the hypotheses of the theorem cover every Enter.\<close>

lemma trim_splits:
  "\<exists>ws ws'. s = ws @ trim s @ ws' \<and> list_all isWhiteSpace ws \<and> list_all isWhiteSpace ws' \<and>
     (trim s \<noteq> [] \<longrightarrow> \<not> isWhiteSpace (hd (trim s)) \<and> \<not> isWhiteSpace (last (trim s)))"
proof -
  let ?a = "takeWhile isWhiteSpace s"
  let ?r = "dropWhile isWhiteSpace s"
  let ?b = "rev (takeWhile isWhiteSpace (rev ?r))"
  have t: "trim s = rev (dropWhile isWhiteSpace (rev ?r))" by (simp add: trim_def)
  have "rev (trim s @ ?b) = rev ?r" by (simp add: t)
  then have "trim s @ ?b = ?r" by (simp only: rev_is_rev_conv)
  then have r: "?r = trim s @ ?b" by (rule sym)
  have split: "s = ?a @ trim s @ ?b" using r by (metis takeWhile_dropWhile_id)
  have wa: "list_all isWhiteSpace ?a" by (simp add: list_all_iff) (meson set_takeWhileD)
  have wb: "list_all isWhiteSpace ?b" by (simp add: list_all_iff) (meson set_takeWhileD)
  have lst: "\<not> isWhiteSpace (last (trim s))" if ne: "trim s \<noteq> []"
  proof -
    from ne have "dropWhile isWhiteSpace (rev ?r) \<noteq> []" by (simp add: t)
    then have "\<not> isWhiteSpace (hd (dropWhile isWhiteSpace (rev ?r)))" by (rule hd_dropWhile)
    then show ?thesis using ne by (simp add: t last_rev)
  qed
  have hdd: "\<not> isWhiteSpace (hd (trim s))" if ne: "trim s \<noteq> []"
  proof -
    from ne r have "?r \<noteq> []" by (metis append_is_Nil_conv)
    then have "\<not> isWhiteSpace (hd ?r)" by (rule hd_dropWhile)
    moreover have "hd ?r = hd (trim s)" using ne r by (metis hd_append2)
    ultimately show ?thesis by simp
  qed
  from split wa wb lst hdd show ?thesis by blast
qed

subsection \<open>The history cursor\<close>

lemma upKey_index:
  "lastCommandIndex (upKey t s) =
     (if historyLineData s \<noteq> [] \<and> lastCommandIndex s > 0 then lastCommandIndex s - 1
      else lastCommandIndex s)"
  by (simp add: upKey_def clearCurrentLine_def writeKey_def call_def Let_def)

lemma downKey_index:
  "lastCommandIndex (downKey t s) =
     (if historyLineData s \<noteq> [] \<and> lastCommandIndex s < int (length (historyLineData s))
      then lastCommandIndex s + 1 else lastCommandIndex s)"
  by (simp add: downKey_def clearCurrentLine_def writeKey_def call_def Let_def)

lemma upKey_history: "historyLineData (upKey t s) = historyLineData s"
  by (simp add: upKey_def clearCurrentLine_def writeKey_def call_def Let_def)

lemma downKey_history: "historyLineData (downKey t s) = historyLineData s"
  by (simp add: downKey_def clearCurrentLine_def writeKey_def call_def Let_def)

lemma enterKey_cursorInv: "cursorInv s \<Longrightarrow> cursorInv (enterKey p t s)"
  by (simp add: cursorInv_def enterKey_def runJob_def writePrompt_def optCall_def call_def
      send_def Let_def split: option.split)

lemma onData_cursorInv: "cursorInv s \<Longrightarrow> cursorInv (onData p key cursorX s)"
proof -
  assume inv: "cursorInv s"
  have up: "cursorInv (upKey t s)" for t
    using inv by (simp add: cursorInv_def upKey_index upKey_history)
  have down: "cursorInv (downKey t s)" for t
    using inv by (simp add: cursorInv_def downKey_index downKey_history)
  have bs: "cursorInv (writeBackspace t cursorX s)" for t
    using inv by (simp add: cursorInv_def writeBackspace_def writeKey_def call_def)
  have other: "cursorInv (otherKey t key s)" for t
    using inv by (simp add: cursorInv_def otherKey_def writeKey_def call_def)
  have rep: "cursorInv (x\<lparr>keysReported := ks\<rparr>) = cursorInv x" for x ks
    by (simp add: cursorInv_def)
  show ?thesis
    using inv up down bs other enterKey_cursorInv [OF inv]
    by (simp add: onData_def Let_def rep split: option.split)
qed

lemma step_cursorInv: "cursorInv s \<Longrightarrow> step p e s = Some s' \<Longrightarrow> cursorInv s'"
proof (cases e)
  case Mount
  assume "cursorInv s" "step p e s = Some s'"
  with Mount show ?thesis
    by (auto simp: cursorInv_def mount_def writePrompt_def optCall_def call_def send_def Let_def)
next
  case Unmount
  assume "cursorInv s" "step p e s = Some s'"
  with Unmount show ?thesis
    by (auto simp: cursorInv_def cleanup_def optCall_def call_def Let_def split: option.splits)
next
  case (Data key cursorX)
  assume "cursorInv s" "step p e s = Some s'"
  with Data show ?thesis by (auto simp: onData_cursorInv)
next
  case (JobCallback res)
  assume "cursorInv s" "step p e s = Some s'"
  with JobCallback show ?thesis
    by (auto simp: cursorInv_def jobCallback_def jobOutput_def derefCall_def writePrompt_def
        optCall_def call_def writelnEach_calls split: option.splits if_splits)
next
  case (InitCallback res)
  assume "cursorInv s" "step p e s = Some s'"
  with InitCallback show ?thesis
    by (auto simp: cursorInv_def initCallback_def writePrompt_def optCall_def call_def
        writelnEach_calls Let_def split: option.splits if_splits)
qed

text \<open>Every state a run reaches from the fresh component has the cursor in range.\<close>

lemma run_cursorInv: "cursorInv s \<Longrightarrow> run p es s = Some s' \<Longrightarrow> cursorInv s'"
  by (induction es arbitrary: s) (auto split: option.splits dest: step_cursorInv)

text \<open>Recalling history never changes the history itself.\<close>

lemma recall_keeps_history:
  "historyLineData (onData p [0x1B, 0x5B, 0x41] cursorX s) = historyLineData s \<and>
   historyLineData (onData p [0x1B, 0x5B, 0x42] cursorX s) = historyLineData s"
  by (simp add: onData_def charCodeAt0_def upKey_history downKey_history Let_def
      split: option.split)

subsection \<open>What the Down arrow does\<close>

text \<open>
  With the cursor inside the history, the Down arrow erases the line, moves the cursor
  on by one and writes the entry the cursor was on; the buffer becomes that entry, or
  the empty string when the cursor has reached the end.
\<close>

lemma downKey_effect:
  assumes "\<not> isDisposed s" and "termRef s = Some t"
    and "0 \<le> lastCommandIndex s" and "lastCommandIndex s < int (length (historyLineData s))"
    and "s' = onData p [0x1B, 0x5B, 0x42] cursorX s"
    and "entry = historyLineData s ! nat (lastCommandIndex s)"
  shows "lastCommandIndex s' = lastCommandIndex s + 1 \<and>
         historyLineData s' = historyLineData s \<and>
         currentLineData s' =
           (if lastCommandIndex s + 1 = int (length (historyLineData s)) then [] else entry) \<and>
         calls s' = calls s @
           [(t, Write ([0x1B] @ str ''[G'')),
            (t, Write ([0x1B] @ str ''['' @ numToString (promptLength + 1) @ str ''G'')),
            (t, Write ([0x1B] @ str ''[K'')), (t, Write entry)]"
proof -
  have "0 < int (length (historyLineData s))" using assms(3,4) by linarith
  then have ne: "historyLineData s \<noteq> []" by auto
  have rem: "jsRem (lastCommandIndex s) (int (length (historyLineData s))) =
      Some (lastCommandIndex s)"
    using assms(3,4) ne by (simp add: jsRem_def sgn_if)
  have idx: "orEmpty (jsIndex (historyLineData s) (Some (lastCommandIndex s))) = entry"
    using assms(3,4,6) by (simp add: jsIndex_def orEmpty_def)
  have atEnd: "orEmpty (jsIndex (historyLineData s)
      (jsRem (int (length (historyLineData s)) - 1) (int (length (historyLineData s))))) = entry"
    if "lastCommandIndex s + 1 = int (length (historyLineData s))"
  proof -
    from that have "int (length (historyLineData s)) - 1 = lastCommandIndex s" by simp
    then show ?thesis by (simp only: rem idx)
  qed
  have dk: "lastCommandIndex (downKey t s) = lastCommandIndex s + 1 \<and>
         historyLineData (downKey t s) = historyLineData s \<and>
         currentLineData (downKey t s) =
           (if lastCommandIndex s + 1 = int (length (historyLineData s)) then [] else entry) \<and>
         calls (downKey t s) = calls s @
           [(t, Write ([0x1B] @ str ''[G'')),
            (t, Write ([0x1B] @ str ''['' @ numToString (promptLength + 1) @ str ''G'')),
            (t, Write ([0x1B] @ str ''[K'')), (t, Write entry)]"
    using assms(1,4) ne rem idx atEnd
    by (simp add: downKey_def clearCurrentLine_def writeKey_def call_def Let_def)
  have "s' = (if onKey p
      then (downKey t s)\<lparr>keysReported := keysReported (downKey t s) @ [[0x1B, 0x5B, 0x42]]\<rparr>
      else downKey t s)"
    using assms(1,2) unfolding assms(5) by (simp add: onData_def charCodeAt0_def Let_def)
  with dk show ?thesis by simp
qed

subsection \<open>Printable text on the display\<close>

lemma isPrintable_not_control:
  "isPrintable c \<Longrightarrow> c \<noteq> 0x1B \<and> c \<noteq> 0x0D \<and> c \<noteq> 0x0A \<and> c \<noteq> 0x08 \<and> c \<noteq> 0x7F"
  by (auto simp: isPrintable_def)

lemma feed_printable:
  "list_all isPrintable k \<Longrightarrow> cursorCol sc = length (cells sc) \<Longrightarrow>
     feed Ground k sc = Some \<lparr>cells = cells sc @ k, cursorCol = length (cells sc) + length k\<rparr>"
proof (induction k arbitrary: sc)
  case Nil
  then show ?case by simp
next
  case (Cons c k)
  from Cons.prems have pc: "isPrintable c" and pk: "list_all isPrintable k" by simp_all
  have col: "cursorCol (putChar c sc) = length (cells (putChar c sc))"
    and cells: "cells (putChar c sc) = cells sc @ [c]"
    using Cons.prems(2) by (simp_all add: putChar_def)
  show ?case
    using isPrintable_not_control [OF pc] pc Cons.IH [OF pk col] by (simp add: cells)
qed

lemma renderCalls_append:
  "renderCalls (xs @ ys) sc =
     (case renderCalls xs sc of None \<Rightarrow> None | Some sc' \<Rightarrow> renderCalls ys sc')"
  by (induction xs arbitrary: sc) (simp_all split: option.split)

lemma printable_key_step:
  assumes "key \<noteq> []" and "list_all isPrintable key"
    and "\<not> isDisposed s" and "termRef s = Some t" and "displayInSync t s"
  shows "\<not> isDisposed (onData p key cursorX s) \<and> termRef (onData p key cursorX s) = Some t \<and>
         currentLineData (onData p key cursorX s) = currentLineData s @ key \<and>
         calls (onData p key cursorX s) = calls s @ [(t, Write key)] \<and>
         displayInSync t (onData p key cursorX s)"
proof -
  obtain c cs where key: "key = c # cs" using assms(1) by (cases key) auto
  with assms(2) have pc: "isPrintable c" by simp
  note nc = isPrintable_not_control [OF pc]
  have od: "onData p key cursorX s =
      (let s1 = otherKey t key s
       in if onKey p then s1\<lparr>keysReported := keysReported s1 @ [key]\<rparr> else s1)"
    using assms(3,4) nc unfolding key by (simp add: onData_def charCodeAt0_def)
  have facts: "\<not> isDisposed (onData p key cursorX s)"
    "termRef (onData p key cursorX s) = Some t"
    "currentLineData (onData p key cursorX s) = currentLineData s @ key"
    "calls (onData p key cursorX s) = calls s @ [(t, Write key)]"
    using assms(3,4) by (simp_all add: od otherKey_def writeKey_def call_def Let_def)
  have co: "callsOf t (onData p key cursorX s) = callsOf t s @ [Write key]"
    by (simp add: callsOf_def facts(4))
  have "displayLine t (onData p key cursorX s) =
      Some \<lparr>cells = visiblePrompt @ currentLineData s @ key,
            cursorCol = promptLength + length (currentLineData s) + length key\<rparr>"
    using assms(5) feed_printable [OF assms(2),
        of "\<lparr>cells = visiblePrompt @ currentLineData s,
             cursorCol = promptLength + length (currentLineData s)\<rparr>"]
    by (simp add: displayInSync_def displayLine_def co renderCalls_append promptLength_def)
  then have "displayInSync t (onData p key cursorX s)"
    by (simp add: displayInSync_def facts(3) add.assoc)
  with facts show ?thesis by simp
qed

lemma displayInSync_shown:
  "displayInSync t s \<Longrightarrow> displayedInput t s = Some (currentLineData s)"
  by (simp add: displayInSync_def displayedInput_def promptLength_def)

text \<open>Right after the mount of a fresh component the display shows the bare prompt.\<close>

lemma mount_displayInSync: "displayInSync 0 (mount p init_shell)"
  by (simp add: displayInSync_def displayLine_def callsOf_def mount_def init_shell_def
      writePrompt_def optCall_def call_def send_def Let_def promptText_def
      visiblePrompt_def promptLength_def terminalTitleTemplate_def str_def
      isParamChar_def isPrintable_def csi_def paramValue_def putChar_def)

section \<open>The claims\<close>

text \<open>
  C1. After a, b and c are submitted to a fresh component, three Up arrows show c, b
  and a, and a fourth changes nothing. The three Down arrows that follow then show a,
  b and c (not b, c and the empty line): each writes the entry the cursor was on before
  it moved, and the last one empties the buffer while c stays on the display. Each
  triple is the text shown after the prompt, the input buffer and the history cursor.
\<close>

theorem history_round_trip_trace:
  "map (\<lambda>n. shownAfter (submitABC @ take n recallKeys)) [1, 2, 3, 4, 5, 6, 7] =
     [Some (Some (str ''c''), str ''c'', 2),
      Some (Some (str ''b''), str ''b'', 1),
      Some (Some (str ''a''), str ''a'', 0),
      Some (Some (str ''a''), str ''a'', 0),
      Some (Some (str ''a''), str ''a'', 1),
      Some (Some (str ''b''), str ''b'', 2),
      Some (Some (str ''c''), [], 3)] \<and>
   run noProps (submitABC @ take 4 recallKeys) init_shell =
     run noProps (submitABC @ take 3 recallKeys) init_shell"
  by (simp add: eval_defs display_defs)

text \<open>
  C2. With the single command a in the history and the cursor moved back onto it, the
  Down arrow moves the cursor to the end and empties the input buffer, but the display
  still shows a after the prompt: the displayed line differs from the buffer.
\<close>

theorem recall_next_at_end_trace:
  "shownAfter [Mount, typed ''a'', enter, upArrow, downArrow] = Some (Some (str ''a''), [], 1)"
  by (simp add: eval_defs display_defs)

text \<open>
  C3. On Enter (data whose first code unit is 13) in a mounted component the buffer is
  trimmed: when the buffer is white space, then a command with no white space at either
  end, then white space, the command is what is left. A non-empty command is appended
  to the history and the cursor set to the new length; the command clear clears the
  display, and is appended like any other; with a dispatcher a non-empty command is
  dispatched, otherwise the prompt is rendered; the buffer is empty afterwards. Every
  buffer splits in that way (lemma \<open>trim_splits\<close>).
\<close>

theorem enter_submits:
  assumes "charCodeAt0 key = Some 13" and "\<not> isDisposed s" and "termRef s = Some t"
    and "currentLineData s = ws @ cmd @ ws'"
    and "list_all isWhiteSpace ws" and "list_all isWhiteSpace ws'"
    and "cmd \<noteq> [] \<longrightarrow> \<not> isWhiteSpace (hd cmd) \<and> \<not> isWhiteSpace (last cmd)"
    and "s' = onData p key cursorX s"
  shows "cmd = trim (currentLineData s) \<and>
         historyLineData s' =
           (if cmd \<noteq> [] then historyLineData s @ [cmd] else historyLineData s) \<and>
         lastCommandIndex s' =
           (if cmd \<noteq> [] then int (length (historyLineData s')) else lastCommandIndex s) \<and>
         calls s' = calls s @ (if cmd = str ''clear'' then [(t, Clear)] else []) @
           (if dispatch p \<and> cmd \<noteq> [] then [] else [(t, Write promptText)]) \<and>
         dispatched s' = dispatched s @
           (if dispatch p \<and> cmd \<noteq> [] then [terminalOperation cmd] else []) \<and>
         currentLineData s' = []"
proof -
  have c: "trim (currentLineData s) = cmd"
    using trim_sandwich [OF assms(5,6,7)] by (simp add: assms(4))
  show ?thesis
    using assms(1,2,3,8) c
    by (simp add: onData_def enterKey_def runJob_def writePrompt_def optCall_def call_def
        send_def terminalOperation_def Let_def str_def)
qed

theorem enter_submits_witness:
  "currentLineData paddedClear = str ''  clear '' \<and>
   historyLineData (onData withDispatch [13] 0 paddedClear) = [str ''clear''] \<and>
   lastCommandIndex (onData withDispatch [13] 0 paddedClear) = 1 \<and>
   calls (onData withDispatch [13] 0 paddedClear) = calls paddedClear @ [(0, Clear)] \<and>
   dispatched (onData withDispatch [13] 0 paddedClear) =
     [queryTask, terminalOperation (str ''clear'')] \<and>
   currentLineData (onData withDispatch [13] 0 paddedClear) = []"
proof -
  have b: "currentLineData paddedClear = str ''  '' @ str ''clear'' @ str '' ''"
    by (simp add: paddedClear_eq str_def)
  have m: "\<not> isDisposed paddedClear" "termRef paddedClear = Some 0"
    "dispatched paddedClear = [queryTask]" "historyLineData paddedClear = []"
    by (simp_all add: paddedClear_eq mountedD_eq init_shell_def)
  have w: "list_all isWhiteSpace (str ''  '')" "list_all isWhiteSpace (str '' '')"
    "str ''clear'' \<noteq> [] \<longrightarrow>
       \<not> isWhiteSpace (hd (str ''clear'')) \<and> \<not> isWhiteSpace (last (str ''clear''))"
    by (simp_all add: isWhiteSpace_def str_def)
  have k: "charCodeAt0 [13] = Some 13" by (simp add: charCodeAt0_def)
  have d: "dispatch withDispatch" by (simp add: withDispatch_def)
  from enter_submits [OF k m(1,2) b w refl, of withDispatch 0]
  show ?thesis by (simp add: m d b str_def)
qed

text \<open>
  C4. When the callback of a dispatched command fires in a mounted component, whatever
  the response, the display receives, in this order: a line break; then each line of
  the returned list as a line of its own, or, without a list, the returned non-empty
  error text as a line, or nothing when the response holds neither; then the prompt;
  then the focus. Nothing else of the state changes.
\<close>

theorem job_callback_output:
  assumes "\<not> isDisposed s" and "termRef s = Some t"
  shows "step p (JobCallback res) s =
           Some (s\<lparr>calls := calls s @ [(t, Write [0x0D, 0x0A])] @
             map (\<lambda>l. (t, Writeln l))
               (case res of None \<Rightarrow> []
                | Some d \<Rightarrow>
                    (case taskListStr d of Some ls \<Rightarrow> ls
                     | None \<Rightarrow>
                         (case errorData d of None \<Rightarrow> []
                          | Some e \<Rightarrow> if e = [] then [] else [e]))) @
             [(t, Write promptText), (t, Focus)]\<rparr>) \<and>
         (taskListStr d = Some ls \<longrightarrow>
            step p (JobCallback (Some d)) s =
              Some (s\<lparr>calls := calls s @ [(t, Write [0x0D, 0x0A])] @
                       map (\<lambda>l. (t, Writeln l)) ls @ [(t, Write promptText), (t, Focus)]\<rparr>)) \<and>
         (taskListStr d = None \<and> errorData d = Some e \<and> e \<noteq> [] \<longrightarrow>
            step p (JobCallback (Some d)) s =
              Some (s\<lparr>calls := calls s @ [(t, Write [0x0D, 0x0A]), (t, Writeln e),
                       (t, Write promptText), (t, Focus)]\<rparr>))"
  using assms
  by (simp add: jobCallback_def jobOutput_def derefCall_def writePrompt_def optCall_def
      call_def writelnEach_calls split: option.split)

theorem job_callback_output_witness:
  "step withDispatch (JobCallback (Some listResponse)) mountedD =
     Some (mountedD\<lparr>calls := calls mountedD @
       [(0, Write [0x0D, 0x0A]), (0, Writeln (str ''task1'')), (0, Writeln (str ''task2'')),
        (0, Write promptText), (0, Focus)]\<rparr>) \<and>
   step withDispatch (JobCallback (Some errorResponse)) mountedD =
     Some (mountedD\<lparr>calls := calls mountedD @
       [(0, Write [0x0D, 0x0A]), (0, Writeln (str ''not found'')),
        (0, Write promptText), (0, Focus)]\<rparr>) \<and>
   step withDispatch (JobCallback None) mountedD =
     Some (mountedD\<lparr>calls := calls mountedD @
       [(0, Write [0x0D, 0x0A]), (0, Write promptText), (0, Focus)]\<rparr>) \<and>
   step withDispatch (JobCallback (Some noPayloadResponse)) mountedD =
     Some (mountedD\<lparr>calls := calls mountedD @
       [(0, Write [0x0D, 0x0A]), (0, Write promptText), (0, Focus)]\<rparr>) \<and>
   step withDispatch (JobCallback (Some emptyErrorResponse)) mountedD =
     Some (mountedD\<lparr>calls := calls mountedD @
       [(0, Write [0x0D, 0x0A]), (0, Write promptText), (0, Focus)]\<rparr>)"
proof -
  have m: "\<not> isDisposed mountedD" "termRef mountedD = Some 0"
    by (simp_all add: mountedD_eq init_shell_def)
  note j = job_callback_output [OF m, where p = withDispatch]
  show ?thesis
    using j [where res = "Some listResponse" and d = listResponse
        and ls = "[str ''task1'', str ''task2'']"]
      j [where res = "Some errorResponse" and d = errorResponse and e = "str ''not found''"]
      j [where res = None] j [where res = "Some noPayloadResponse"]
      j [where res = "Some emptyErrorResponse"]
    by (simp add: listResponse_def errorResponse_def noPayloadResponse_def
        emptyErrorResponse_def str_def)
qed

text \<open>
  C5. Once the component is unmounted, whatever arrives late (callbacks of the command
  dispatch or of the initial query, with any response, and key data) leaves the whole
  state as the cleanup left it and raises no error: the trace of terminal calls ends
  with the cleanup's own dispose, no write follows it.
\<close>

theorem no_write_after_unmount:
  assumes "list_all lateEvent es"
  shows "run p (Unmount # es) s = Some (cleanup s) \<and>
         calls (cleanup s) = calls s @
           (case termRef s of None \<Rightarrow> []
            | Some t \<Rightarrow> if disposed s then [] else [(t, Dispose)])"
  using assms
  by (simp add: late_run_disposed cleanup_isDisposed)
    (simp add: cleanup_def optCall_def call_def Let_def split: option.split)

theorem no_write_after_unmount_witness:
  "run withDispatch
     [Unmount, JobCallback (Some listResponse), InitCallback (Some queryResponse), typed ''x'']
     mountedD = Some (cleanup mountedD) \<and>
   calls (cleanup mountedD) = calls mountedD @ [(0, Dispose)]"
  using no_write_after_unmount [where s = mountedD and p = withDispatch
      and es = "[JobCallback (Some listResponse), InitCallback (Some queryResponse), typed ''x'']"]
  by (simp add: mountedD_eq init_shell_def typed_def)

text \<open>
  C6. Backspace (data whose first code unit is 127): when the terminal reports the
  cursor column equal to the prompt length, neither the input buffer nor the calls made
  on the display change; when it reports a greater column, in a mounted component, the
  buffer loses exactly its last code unit and one destructive backspace sequence
  (backspace, space, backspace) is written.
\<close>

theorem backspace_bounded_by_prompt:
  assumes "charCodeAt0 key = Some 127"
  shows "(cursorX = promptLength \<longrightarrow>
            currentLineData (onData p key cursorX s) = currentLineData s \<and>
            calls (onData p key cursorX s) = calls s) \<and>
         (\<not> isDisposed s \<and> termRef s = Some t \<and> cursorX > promptLength \<longrightarrow>
            currentLineData (onData p key cursorX s) = butlast (currentLineData s) \<and>
            calls (onData p key cursorX s) = calls s @ [(t, Write [0x08, 0x20, 0x08])])"
  using assms
  by (simp add: onData_def writeBackspace_def writeKey_def call_def slice0m1_butlast
      split: option.split)

theorem backspace_bounded_by_prompt_witness:
  "currentLineData (onData noProps [127] 16 typedAB) = str ''ab'' \<and>
   calls (onData noProps [127] 16 typedAB) = calls typedAB \<and>
   currentLineData (onData noProps [127] 18 typedAB) = str ''a'' \<and>
   calls (onData noProps [127] 18 typedAB) = calls typedAB @ [(0, Write [0x08, 0x20, 0x08])]"
  using backspace_bounded_by_prompt [where key = "[127]" and cursorX = 16 and p = noProps
      and s = typedAB and t = 0]
    backspace_bounded_by_prompt [where key = "[127]" and cursorX = 18 and p = noProps
      and s = typedAB and t = 0]
  by (simp add: typedAB_eq init_shell_def promptLength_eq charCodeAt0_def str_def)

text \<open>
  C7. On Enter with an empty or white-space-only buffer, in a mounted component, the
  history and the history cursor are unchanged, nothing is handed to the dispatcher,
  and the prompt is rendered again.
\<close>

theorem enter_empty_line:
  assumes "charCodeAt0 key = Some 13" and "trim (currentLineData s) = []"
    and "\<not> isDisposed s" and "termRef s = Some t"
  shows "historyLineData (onData p key cursorX s) = historyLineData s \<and>
         lastCommandIndex (onData p key cursorX s) = lastCommandIndex s \<and>
         dispatched (onData p key cursorX s) = dispatched s \<and>
         calls (onData p key cursorX s) = calls s @ [(t, Write promptText)]"
  using assms
  by (simp add: onData_def enterKey_def runJob_def writePrompt_def optCall_def call_def
      Let_def str_def)

theorem enter_empty_line_witness:
  "historyLineData (onData withDispatch [13] 0 blankLine) = [] \<and>
   lastCommandIndex (onData withDispatch [13] 0 blankLine) = 0 \<and>
   dispatched (onData withDispatch [13] 0 blankLine) = [queryTask] \<and>
   calls (onData withDispatch [13] 0 blankLine) = calls blankLine @ [(0, Write promptText)]"
  using enter_empty_line [where key = "[13]" and s = blankLine and t = 0
      and p = withDispatch and cursorX = 0]
  by (simp add: blankLine_eq mountedD_eq init_shell_def charCodeAt0_def
      trim_def isWhiteSpace_def str_def)

text \<open>
  C8. The history cursor lies between 0 and the length of the history in the initial
  state, and every event keeps it there. In a mounted component the Up arrow decrements
  it only when it is positive (and the history is not empty), the Down arrow increments
  it only when it is below the length of the history, and Enter with a non-empty
  trimmed command sets it to the new length of the history.
\<close>

theorem history_cursor_invariant:
  "cursorInv init_shell \<and>
   (cursorInv s \<and> step p e s = Some s' \<longrightarrow> cursorInv s') \<and>
   (\<not> isDisposed s \<and> termRef s = Some t \<longrightarrow>
      lastCommandIndex (onData p [0x1B, 0x5B, 0x41] cursorX s) =
        (if historyLineData s \<noteq> [] \<and> lastCommandIndex s > 0 then lastCommandIndex s - 1
         else lastCommandIndex s) \<and>
      lastCommandIndex (onData p [0x1B, 0x5B, 0x42] cursorX s) =
        (if historyLineData s \<noteq> [] \<and> lastCommandIndex s < int (length (historyLineData s))
         then lastCommandIndex s + 1 else lastCommandIndex s) \<and>
      (charCodeAt0 key = Some 13 \<and> trim (currentLineData s) \<noteq> [] \<longrightarrow>
         lastCommandIndex (onData p key cursorX s) =
           int (length (historyLineData (onData p key cursorX s)))))"
proof -
  have a: "cursorInv init_shell" by (simp add: cursorInv_def init_shell_def)
  have b: "cursorInv s \<and> step p e s = Some s' \<longrightarrow> cursorInv s'"
    using step_cursorInv by blast
  have c: "\<not> isDisposed s \<and> termRef s = Some t \<longrightarrow>
      lastCommandIndex (onData p [0x1B, 0x5B, 0x41] cursorX s) =
        (if historyLineData s \<noteq> [] \<and> lastCommandIndex s > 0 then lastCommandIndex s - 1
         else lastCommandIndex s)"
    by (simp add: onData_def charCodeAt0_def upKey_index Let_def)
  have d: "\<not> isDisposed s \<and> termRef s = Some t \<longrightarrow>
      lastCommandIndex (onData p [0x1B, 0x5B, 0x42] cursorX s) =
        (if historyLineData s \<noteq> [] \<and> lastCommandIndex s < int (length (historyLineData s))
         then lastCommandIndex s + 1 else lastCommandIndex s)"
    by (simp add: onData_def charCodeAt0_def downKey_index Let_def)
  have e: "\<not> isDisposed s \<and> termRef s = Some t \<longrightarrow>
      (charCodeAt0 key = Some 13 \<and> trim (currentLineData s) \<noteq> [] \<longrightarrow>
         lastCommandIndex (onData p key cursorX s) =
           int (length (historyLineData (onData p key cursorX s))))"
    by (simp add: onData_def enterKey_def runJob_def writePrompt_def optCall_def call_def
      send_def Let_def)
  from a b c d e show ?thesis by blast
qed

theorem history_cursor_invariant_witness:
  "cursorInv init_shell \<and> cursorInv afterABC \<and>
   cursorInv (onData noProps [0x1B, 0x5B, 0x41] 0 afterABC) \<and>
   lastCommandIndex (onData noProps [0x1B, 0x5B, 0x41] 0 afterABC) = 2 \<and>
   lastCommandIndex (onData noProps [0x1B, 0x5B, 0x42] 0 afterABC) = 3 \<and>
   lastCommandIndex (onData withDispatch [13] 0 typedClear) = 1"
  using history_cursor_invariant [where s = afterABC and p = noProps
      and e = "Data [0x1B, 0x5B, 0x41] 0" and s' = "onData noProps [0x1B, 0x5B, 0x41] 0 afterABC"
      and t = 0 and cursorX = 0 and key = "[13]"]
    history_cursor_invariant [where s = typedClear and p = withDispatch
      and e = "Data [13] 0" and s' = "onData withDispatch [13] 0 typedClear"
      and t = 0 and cursorX = 0 and key = "[13]"]
  by (simp add: afterABC_eq typedClear_eq mountedD_eq init_shell_def cursorInv_def
      charCodeAt0_def trim_def isWhiteSpace_def str_def
      onData_def enterKey_def runJob_def writePrompt_def optCall_def call_def send_def
      withDispatch_def Let_def)

text \<open>
  C9. From a mounted state whose display shows the prompt followed by the input buffer
  with the cursor at its end (as right after a prompt, the buffer empty), a sequence of
  printable-character events succeeds, appends the typed text to the buffer, writes each
  key to the display, and the text shown after the prompt is the buffer again. From the
  empty buffer the buffer is the concatenation of what was typed.
\<close>

theorem typed_text_in_buffer_and_display:
  assumes "list_all printableKey es"
    and "\<not> isDisposed s" and "termRef s = Some t" and "displayInSync t s"
  shows "\<exists>s'. run p es s = Some s' \<and>
           currentLineData s' = currentLineData s @ typedText es \<and>
           calls s' = calls s @ map (\<lambda>e. (t, Write (keyOf e))) es \<and>
           displayedInput t s' = Some (currentLineData s')"
proof -
  have "\<exists>s'. run p es s = Some s' \<and>
           currentLineData s' = currentLineData s @ typedText es \<and>
           calls s' = calls s @ map (\<lambda>e. (t, Write (keyOf e))) es \<and>
           displayInSync t s'"
    using assms
  proof (induction es arbitrary: s)
    case Nil
    then show ?case by (simp add: typedText_def)
  next
    case (Cons e es)
    from Cons.prems(1) obtain key cursorX where e: "e = Data key cursorX"
      and k: "key \<noteq> []" "list_all isPrintable key"
      by (cases e) (auto simp: printableKey_def)
    let ?s1 = "onData p key cursorX s"
    note st = printable_key_step [OF k Cons.prems(2,3,4), of p cursorX]
    from Cons.prems(1) have "list_all printableKey es" by simp
    from Cons.IH [OF this, of ?s1] st
    obtain s' where "run p es ?s1 = Some s'"
      "currentLineData s' = currentLineData ?s1 @ typedText es"
      "calls s' = calls ?s1 @ map (\<lambda>e. (t, Write (keyOf e))) es"
      "displayInSync t s'"
      by blast
    with st show ?case by (simp add: e typedText_def)
  qed
  then show ?thesis using displayInSync_shown by blast
qed

theorem typed_text_in_buffer_and_display_witness:
  "\<exists>s'. run noProps [typed ''l'', typed ''s''] (mount noProps init_shell) = Some s' \<and>
     currentLineData s' = str ''ls'' \<and>
     calls s' = calls (mount noProps init_shell) @ [(0, Write (str ''l'')), (0, Write (str ''s''))] \<and>
     displayedInput 0 s' = Some (str ''ls'')"
proof -
  have h1: "list_all printableKey [typed ''l'', typed ''s'']"
    by (simp add: printableKey_def typed_def isPrintable_def str_def)
  have h2: "\<not> isDisposed (mount noProps init_shell)"
    and h3: "termRef (mount noProps init_shell) = Some 0"
    using mount_mounted [of noProps init_shell] by (simp_all add: init_shell_def)
  have b: "currentLineData (mount noProps init_shell) = []"
    by (simp add: eval_defs)
  from typed_text_in_buffer_and_display [OF h1 h2 h3 mount_displayInSync, of noProps]
  show ?thesis by (simp add: b typedText_def typed_def str_def)
qed

text \<open>
  C10. Mounting with a dispatcher while the component is not yet initialised dispatches
  the action of type task/queryTask and renders the prompt once. When the callback of
  that action fires in a mounted component, whatever the state and the response, each
  string of the returned task list (none when the response has no list) is written as a
  line of its own, the component is marked initialised and the prompt is rendered once
  more: with the prompt of the mount, two prompt renders at startup.
\<close>

theorem initial_query_on_mount:
  "(dispatch p \<and> \<not> isInitialized s \<and> t = created s \<longrightarrow>
      dispatched (mount p s) = dispatched s @ [queryTask] \<and>
      calls (mount p s) = calls s @ (if terminalRef s then [(t, Open)] else []) @
        [(t, LoadAddon), (t, Fit), (t, Focus), (t, Write promptText)] \<and>
      promptRenders (mount p s) = promptRenders s + 1 \<and>
      promptRenders (initCallback res (mount p s)) = promptRenders s + 2 \<and>
      (taskList d = Some ls \<longrightarrow>
         calls (initCallback (Some d) (mount p s)) =
           calls (mount p s) @ map (\<lambda>l. (t, Writeln l)) ls @ [(t, Write promptText)] \<and>
         promptRenders (initCallback (Some d) (mount p s)) = promptRenders s + 2)) \<and>
   (\<not> isDisposed sm \<and> termRef sm = Some tm \<longrightarrow>
      step p (InitCallback res) sm =
        Some (sm\<lparr>isInitialized := True,
                 calls := calls sm @
                   map (\<lambda>l. (tm, Writeln l))
                     (case res of None \<Rightarrow> []
                      | Some d \<Rightarrow> (case taskList d of None \<Rightarrow> [] | Some ls \<Rightarrow> ls)) @
                   [(tm, Write promptText)]\<rparr>) \<and>
      promptRenders (initCallback res sm) = promptRenders sm + 1)"
proof -
  have cb: "initCallback res x =
        x\<lparr>isInitialized := True,
          calls := calls x @
            map (\<lambda>l. (u, Writeln l))
              (case res of None \<Rightarrow> []
               | Some d \<Rightarrow> (case taskList d of None \<Rightarrow> [] | Some ls \<Rightarrow> ls)) @
            [(u, Write promptText)]\<rparr>"
    if "\<not> isDisposed x" "termRef x = Some u" for x u res
    using that by (simp add: initCallback_def writePrompt_def optCall_def call_def
        writelnEach_calls Let_def split: option.split)
  have pr: "promptRenders (initCallback res x) = promptRenders x + 1"
    if "\<not> isDisposed x" "termRef x = Some u" for x u res
    unfolding cb [OF that] promptRenders_def by (simp add: filter_Writeln_prompt)
  have second: "\<not> isDisposed sm \<and> termRef sm = Some tm \<longrightarrow>
      step p (InitCallback res) sm =
        Some (sm\<lparr>isInitialized := True,
                 calls := calls sm @
                   map (\<lambda>l. (tm, Writeln l))
                     (case res of None \<Rightarrow> []
                      | Some d \<Rightarrow> (case taskList d of None \<Rightarrow> [] | Some ls \<Rightarrow> ls)) @
                   [(tm, Write promptText)]\<rparr>) \<and>
      promptRenders (initCallback res sm) = promptRenders sm + 1"
    using cb [of sm tm res] pr [of sm tm res] by simp
  have first: "dispatched (mount p s) = dispatched s @ [queryTask] \<and>
      calls (mount p s) = calls s @ (if terminalRef s then [(t, Open)] else []) @
        [(t, LoadAddon), (t, Fit), (t, Focus), (t, Write promptText)] \<and>
      promptRenders (mount p s) = promptRenders s + 1 \<and>
      promptRenders (initCallback res (mount p s)) = promptRenders s + 2 \<and>
      (taskList d = Some ls \<longrightarrow>
         calls (initCallback (Some d) (mount p s)) =
           calls (mount p s) @ map (\<lambda>l. (t, Writeln l)) ls @ [(t, Write promptText)] \<and>
         promptRenders (initCallback (Some d) (mount p s)) = promptRenders s + 2)"
    if h: "dispatch p" "\<not> isInitialized s" "t = created s"
  proof -
    have m: "\<not> isDisposed (mount p s)" "termRef (mount p s) = Some t"
      using h(3) mount_mounted [of p s] by simp_all
    have a: "dispatched (mount p s) = dispatched s @ [queryTask]"
      using h by (simp add: mount_def writePrompt_def optCall_def call_def send_def
          queryTask_def Let_def)
    have b: "calls (mount p s) = calls s @ (if terminalRef s then [(t, Open)] else []) @
             [(t, LoadAddon), (t, Fit), (t, Focus), (t, Write promptText)]"
      using h by (simp add: mount_def writePrompt_def optCall_def call_def send_def Let_def)
    have c: "promptRenders (mount p s) = promptRenders s + 1"
      unfolding promptRenders_def b by simp
    have d: "promptRenders (initCallback r (mount p s)) = promptRenders s + 2" for r
      using pr [OF m, of r] c by simp
    have e: "calls (initCallback (Some d) (mount p s)) =
           calls (mount p s) @ map (\<lambda>l. (t, Writeln l)) ls @ [(t, Write promptText)]"
      if "taskList d = Some ls"
      using that by (simp add: cb [OF m])
    from a b c d e show ?thesis by blast
  qed
  from first second show ?thesis by blast
qed

theorem initial_query_on_mount_witness:
  "dispatched (mount withDispatch init_shell) = [queryTask] \<and>
   calls (mount withDispatch init_shell) =
     [(0, Open), (0, LoadAddon), (0, Fit), (0, Focus), (0, Write promptText)] \<and>
   calls (initCallback (Some queryResponse) (mount withDispatch init_shell)) =
     [(0, Open), (0, LoadAddon), (0, Fit), (0, Focus), (0, Write promptText),
      (0, Writeln (str ''task1'')), (0, Writeln (str ''task2'')), (0, Write promptText)] \<and>
   promptRenders (initCallback (Some queryResponse) (mount withDispatch init_shell)) = 2 \<and>
   promptRenders (initCallback None (mount withDispatch init_shell)) = 2 \<and>
   promptRenders (initCallback (Some noPayloadResponse) (mount withDispatch init_shell)) = 2 \<and>
   step withDispatch (InitCallback (Some noPayloadResponse)) mountedD =
     Some (mountedD\<lparr>isInitialized := True,
             calls := calls mountedD @ [(0, Write promptText)]\<rparr>)"
proof -
  have m: "\<not> isDisposed mountedD \<and> termRef mountedD = Some 0"
    by (simp add: mountedD_eq init_shell_def)
  have h: "dispatch withDispatch \<and> \<not> isInitialized init_shell \<and> 0 = created init_shell"
    by (simp add: withDispatch_def init_shell_def)
  have z: "dispatched init_shell = []" "calls init_shell = []" "terminalRef init_shell"
    "promptRenders init_shell = 0"
    by (simp_all add: init_shell_def promptRenders_def)
  have tl: "taskList queryResponse = Some [str ''task1'', str ''task2'']"
    "taskList noPayloadResponse = None"
    by (simp_all add: queryResponse_def noPayloadResponse_def)
  note i = initial_query_on_mount [where p = withDispatch and s = init_shell and t = 0
      and sm = mountedD and tm = 0 and d = queryResponse
      and ls = "[str ''task1'', str ''task2'']"]
  from i [where res = None] h tl(1)
  have a: "dispatched (mount withDispatch init_shell) = dispatched init_shell @ [queryTask]"
    and b: "calls (mount withDispatch init_shell) =
      calls init_shell @ (if terminalRef init_shell then [(0, Open)] else []) @
      [(0, LoadAddon), (0, Fit), (0, Focus), (0, Write promptText)]"
    and c: "calls (initCallback (Some queryResponse) (mount withDispatch init_shell)) =
      calls (mount withDispatch init_shell) @
      map (\<lambda>l. (0, Writeln l)) [str ''task1'', str ''task2''] @ [(0, Write promptText)]"
    and d: "promptRenders (initCallback (Some queryResponse) (mount withDispatch init_shell)) =
      promptRenders init_shell + 2"
    and e: "promptRenders (initCallback None (mount withDispatch init_shell)) =
      promptRenders init_shell + 2"
    by blast+
  from i [where res = "Some noPayloadResponse"] h m
  have f: "promptRenders (initCallback (Some noPayloadResponse) (mount withDispatch init_shell)) =
      promptRenders init_shell + 2"
    and g: "step withDispatch (InitCallback (Some noPayloadResponse)) mountedD =
      Some (mountedD\<lparr>isInitialized := True,
        calls := calls mountedD @
          map (\<lambda>l. (0, Writeln l))
            (case Some noPayloadResponse of None \<Rightarrow> []
             | Some d \<Rightarrow> (case taskList d of None \<Rightarrow> [] | Some ls \<Rightarrow> ls)) @
          [(0, Write promptText)]\<rparr>)"
    by blast+
  have b': "calls (mount withDispatch init_shell) =
      [(0, Open), (0, LoadAddon), (0, Fit), (0, Focus), (0, Write promptText)]"
    unfolding b by (simp add: z)
  have c': "calls (initCallback (Some queryResponse) (mount withDispatch init_shell)) =
     [(0, Open), (0, LoadAddon), (0, Fit), (0, Focus), (0, Write promptText),
      (0, Writeln (str ''task1'')), (0, Writeln (str ''task2'')), (0, Write promptText)]"
    unfolding c b' by simp
  have g': "step withDispatch (InitCallback (Some noPayloadResponse)) mountedD =
     Some (mountedD\<lparr>isInitialized := True,
             calls := calls mountedD @ [(0, Write promptText)]\<rparr>)"
    unfolding g by (simp add: tl(2))
  show ?thesis
    unfolding a b' c' d e f g' by (simp add: z)
qed

end
